theory Spec2Isabelle
  imports Main "HOL-Library.Sublist"
begin

section \<open>Values, errors and effects\<close>

text \<open>
  The build script \<^verbatim>\<open>bbox_setup.py\<close> is Python. Its functions read the process
  environment and the file system, print, and raise exceptions. The model makes each of
  these explicit: the environment and the file system are a record that the functions
  read, an exception is the left summand of the result, and everything a function does
  besides returning (searching the executable path, printing, calling the wrapped
  compile method) is recorded in a trace that is returned with the result.
\<close>

text \<open>
  Python values that the compile wrapper only passes through (output directory, macros,
  include directories, debug flag, extra arguments, dependencies).
\<close>

datatype pyval = PyNone | PyInt int | PyStr string | PyList "pyval list"

text \<open>
  The exceptions the script can raise. \<^verbatim>\<open>sources[0]\<close> on an empty list raises
  IndexError, a dictionary subscript with a missing key raises KeyError whose only
  argument is the key, and \<^verbatim>\<open>locate_cuda\<close> raises EnvironmentError with a message.
\<close>

datatype py_error = IndexError | KeyError string | EnvironmentError string

text \<open>The argument tuple of an exception (\<^verbatim>\<open>e.args\<close>): all the text it carries.\<close>

fun args :: "py_error \<Rightarrow> string list" where
  "args IndexError = [''list index out of range'']"
| "args (KeyError k) = [k]"
| "args (EnvironmentError m) = [m]"

text \<open>An exception names a text when the text occurs in one of its arguments.\<close>

definition names :: "py_error \<Rightarrow> string \<Rightarrow> bool" where
  "names e s = list_ex (sublist s) (args e)"

section \<open>Path functions of the standard library (POSIX flavour)\<close>

text \<open>
  \<^verbatim>\<open>str.rfind\<close> for a single character: the highest index at which the character occurs,
  or \<open>-1\<close>.
\<close>

fun rfind_from :: "char \<Rightarrow> string \<Rightarrow> nat \<Rightarrow> int \<Rightarrow> int" where
  "rfind_from c [] i found = found"
| "rfind_from c (x # xs) i found = rfind_from c xs (Suc i) (if x = c then int i else found)"

definition rfind :: "char \<Rightarrow> string \<Rightarrow> int" where
  "rfind c p = rfind_from c p 0 (- 1)"

text \<open>
  The loop of \<^verbatim>\<open>genericpath._splitext\<close> that skips leading dots of the file name:
  it finds a character other than a dot strictly before the last dot, or runs out.
  \<^verbatim>\<open>
      while filenameIndex < dotIndex:
          if p[filenameIndex:filenameIndex+1] != extsep:
              return p[:dotIndex], p[dotIndex:]
          filenameIndex += 1
  \<close>
\<close>

function non_dot_before :: "string \<Rightarrow> nat \<Rightarrow> nat \<Rightarrow> bool" where
  "non_dot_before p filenameIndex dotIndex =
     (if filenameIndex < dotIndex
      then (if take 1 (drop filenameIndex p) \<noteq> ''.'' then True
            else non_dot_before p (Suc filenameIndex) dotIndex)
      else False)"
  by pat_completeness auto
termination
  by (relation "measure (\<lambda>(p, f, d). d - f)") auto

text \<open>
  \<^verbatim>\<open>os.path.splitext\<close>:
  \<^verbatim>\<open>
      sepIndex = p.rfind(sep)
      dotIndex = p.rfind(extsep)
      if dotIndex > sepIndex:
          filenameIndex = sepIndex + 1
          while ...
      return p, p[:0]
  \<close>
\<close>

definition splitext :: "string \<Rightarrow> string \<times> string" where
  "splitext p =
     (let sepIndex = rfind CHR ''/'' p;
          dotIndex = rfind CHR ''.'' p
      in if dotIndex > sepIndex \<and> non_dot_before p (nat (sepIndex + 1)) (nat dotIndex)
         then (take (nat dotIndex) p, drop (nat dotIndex) p)
         else (p, []))"

section \<open>The dispatching compile method\<close>

text \<open>The eight arguments with which the wrapped compile method is called.\<close>

record base_call =
  call_sources :: "string list"
  call_output_dir :: pyval
  call_macros :: pyval
  call_include_dirs :: pyval
  call_debug :: pyval
  call_extra_preargs :: pyval
  call_extra_postargs :: pyval
  call_depends :: pyval

text \<open>Dictionary subscript \<^verbatim>\<open>d[k]\<close>: a missing key raises \<^verbatim>\<open>KeyError(k)\<close>.\<close>

definition subscript :: "(string \<rightharpoonup> 'a) \<Rightarrow> string \<Rightarrow> py_error + 'a" where
  "subscript d k = (case d k of None \<Rightarrow> Inl (KeyError k) | Some v \<Rightarrow> Inr v)"

text \<open>
  The closure \<^verbatim>\<open>compile\<close> that \<^verbatim>\<open>customize_compiler_for_nvcc\<close> installs. \<open>super\<close>
  is the compile method saved before the override. The result is the list of calls made
  to \<open>super\<close>, in order, and either the exception raised or the value returned.
  \<^verbatim>\<open>
      postfix = os.path.splitext(sources[0])[1]
      if postfix == '.cu':
          postargs = extra_postargs['nvcc']
      else:
          postargs = extra_postargs['gcc']
      return super(sources, output_dir, macros, include_dirs, debug,
                   extra_preargs, postargs, depends)
  \<close>
  \<open>extra_postargs\<close> is the dictionary from toolchain name to flag list that the
  extension table supplies.
\<close>

definition compile ::
  "(base_call \<Rightarrow> 'r) \<Rightarrow> string list \<Rightarrow> pyval \<Rightarrow> pyval \<Rightarrow> pyval \<Rightarrow> pyval \<Rightarrow> pyval \<Rightarrow>
   (string \<rightharpoonup> pyval) \<Rightarrow> pyval \<Rightarrow> base_call list \<times> (py_error + 'r)" where
  "compile super sources output_dir macros include_dirs debug extra_preargs extra_postargs depends =
     (case sources of
        [] \<Rightarrow> ([], Inl IndexError)
      | first # _ \<Rightarrow>
          let postfix = snd (splitext first) in
          (case (if postfix = ''.cu'' then subscript extra_postargs ''nvcc''
                 else subscript extra_postargs ''gcc'') of
             Inl e \<Rightarrow> ([], Inl e)
           | Inr postargs \<Rightarrow>
               let call = \<lparr>call_sources = sources, call_output_dir = output_dir,
                            call_macros = macros, call_include_dirs = include_dirs,
                            call_debug = debug, call_extra_preargs = extra_preargs,
                            call_extra_postargs = postargs, call_depends = depends\<rparr>
               in ([call], Inr (super call))))"

section \<open>Locating the CUDA toolchain\<close>

text \<open>
  What \<^verbatim>\<open>locate_cuda\<close> reads from the process and the machine: the environment
  variables, the search path used when \<^verbatim>\<open>PATH\<close> is not set (\<^verbatim>\<open>os.defpath\<close>),
  \<^verbatim>\<open>os.path.exists\<close>, and the test \<^verbatim>\<open>shutil.which\<close> applies to a candidate
  (it exists, is executable and is not a directory).
\<close>

record world =
  environ :: "string \<rightharpoonup> string"
  defpath :: string
  path_exists :: "string \<Rightarrow> bool"
  access_check :: "string \<Rightarrow> bool"

text \<open>What \<^verbatim>\<open>locate_cuda\<close> does besides returning, in order.\<close>

datatype effect = PathSearch string | Print string

text \<open>
  \<^verbatim>\<open>posixpath.join\<close>, one component at a time:
  \<^verbatim>\<open>
      for b in p:
          if b.startswith(sep): path = b
          elif not path or path.endswith(sep): path += b
          else: path += sep + b
  \<close>
\<close>

definition join_step :: "string \<Rightarrow> string \<Rightarrow> string" where
  "join_step path b =
     (if b \<noteq> [] \<and> hd b = CHR ''/'' then b
      else if path = [] \<or> last path = CHR ''/'' then path @ b
      else path @ ''/'' @ b)"

definition pjoin :: "string \<Rightarrow> string list \<Rightarrow> string" where
  "pjoin a p = foldl join_step a p"

text \<open>
  \<^verbatim>\<open>posixpath.dirname\<close>:
  \<^verbatim>\<open>
      i = p.rfind(sep) + 1
      head = p[:i]
      if head and head != sep*len(head):
          head = head.rstrip(sep)
      return head
  \<close>
\<close>

definition rstrip :: "char \<Rightarrow> string \<Rightarrow> string" where
  "rstrip c s = rev (dropWhile (\<lambda>x. x = c) (rev s))"

definition dirname :: "string \<Rightarrow> string" where
  "dirname p =
     (let i = rfind CHR ''/'' p + 1;
          head = take (nat i) p
      in if head \<noteq> [] \<and> head \<noteq> replicate (length head) CHR ''/''
         then rstrip CHR ''/'' head else head)"

text \<open>
  \<^verbatim>\<open>str.split\<close> with a one-character separator. The result is never empty, so the
  first branch of the case is never taken; the separator starts a new piece, any other
  character extends the first piece of the rest.
\<close>

fun split_sep :: "char \<Rightarrow> string \<Rightarrow> string list" where
  "split_sep c [] = [[]]"
| "split_sep c (x # xs) =
     (case split_sep c xs of
        [] \<Rightarrow> []
      | piece # pieces \<Rightarrow> if x = c then [] # piece # pieces else (x # piece) # pieces)"

text \<open>
  The search loop of \<^verbatim>\<open>shutil.which\<close>; on POSIX \<^verbatim>\<open>normcase\<close> is the identity and
  the only file tried in a directory is the command itself.
  \<^verbatim>\<open>
      seen = set()
      for dir in path:
          normdir = os.path.normcase(dir)
          if not normdir in seen:
              seen.add(normdir)
              for thefile in files:
                  name = os.path.join(dir, thefile)
                  if _access_check(name, mode):
                      return name
      return None
  \<close>
\<close>

fun which_loop :: "world \<Rightarrow> string \<Rightarrow> string list \<Rightarrow> string list \<Rightarrow> string option" where
  "which_loop w cmd seen [] = None"
| "which_loop w cmd seen (dir # path) =
     (if dir \<notin> set seen
      then (let name = pjoin dir [cmd]
            in if access_check w name then Some name
               else which_loop w cmd (dir # seen) path)
      else which_loop w cmd seen path)"

text \<open>
  \<^verbatim>\<open>shutil.which(cmd)\<close> of the standard library, with its default mode and path:
  \<^verbatim>\<open>
      if os.path.dirname(cmd):
          if _access_check(cmd, mode): return cmd
          return None
      path = os.environ.get("PATH", os.defpath)
      if not path: return None
      path = path.split(os.pathsep)
  \<close>
  followed by the search loop.
\<close>

definition search_path :: "world \<Rightarrow> string" where
  "search_path w = (case environ w ''PATH'' of Some p \<Rightarrow> p | None \<Rightarrow> defpath w)"

definition which :: "world \<Rightarrow> string \<Rightarrow> string option" where
  "which w cmd =
     (if dirname cmd \<noteq> [] then (if access_check w cmd then Some cmd else None)
      else let path = search_path w
           in if path = [] then None
              else which_loop w cmd [] (split_sep CHR '':'' path))"

text \<open>
  The dictionary \<^verbatim>\<open>cudaconfig\<close>, as the list of its items in insertion order, the
  order in which \<^verbatim>\<open>cudaconfig.items()\<close> yields them.
\<close>

definition cudaconfig :: "string \<Rightarrow> string \<Rightarrow> (string \<times> string) list" where
  "cudaconfig home nvcc =
     [(''home'', home), (''nvcc'', nvcc),
      (''include'', pjoin home [''include'']),
      (''lib64'', pjoin home [''lib'', ''x64''])]"

text \<open>The two messages of \<^verbatim>\<open>locate_cuda\<close>.\<close>

definition not_found_message :: string where
  "not_found_message =
     ''The nvcc binary could not be located in your $PATH. Either add it to your path, or set $CUDAHOME''"

definition path_message :: "string \<Rightarrow> string \<Rightarrow> string" where
  "path_message k v = ''The CUDA '' @ k @ '' path could not be located in '' @ v"

text \<open>
  The validation loop:
  \<^verbatim>\<open>
      for k, v in cudaconfig.items():
          if not os.path.exists(v):
              raise EnvironmentError('The CUDA %s path could not be located in %s' % (k, v))
  \<close>
\<close>

fun check_items :: "world \<Rightarrow> (string \<times> string) list \<Rightarrow> py_error option" where
  "check_items w [] = None"
| "check_items w ((k, v) # items) =
     (if \<not> path_exists w v then Some (EnvironmentError (path_message k v))
      else check_items w items)"

definition validated :: "world \<Rightarrow> (string \<times> string) list \<Rightarrow> py_error + (string \<times> string) list" where
  "validated w config = (case check_items w config of Some e \<Rightarrow> Inl e | None \<Rightarrow> Inr config)"

text \<open>
  \<^verbatim>\<open>locate_cuda\<close>:
  \<^verbatim>\<open>
      if 'CUDAHOME' in os.environ:
          home = os.environ['CUDAHOME']
          nvcc = pjoin(home, 'bin', 'nvcc')
      else:
          nvcc = which('nvcc')
          if nvcc is None:
              raise EnvironmentError(...)
          print("nvcc path is " + nvcc)
          home = os.path.dirname(os.path.dirname(nvcc))
      cudaconfig = {...}
      for k, v in cudaconfig.items(): ...
      return cudaconfig
  \<close>
\<close>

definition locate_cuda :: "world \<Rightarrow> effect list \<times> (py_error + (string \<times> string) list)" where
  "locate_cuda w =
     (case environ w ''CUDAHOME'' of
        Some home \<Rightarrow> ([], validated w (cudaconfig home (pjoin home [''bin'', ''nvcc''])))
      | None \<Rightarrow>
          (case which w ''nvcc'' of
             None \<Rightarrow> ([PathSearch ''nvcc''], Inl (EnvironmentError not_found_message))
           | Some nvcc \<Rightarrow>
               let home = dirname (dirname nvcc)
               in ([PathSearch ''nvcc'', Print (''nvcc path is '' @ nvcc)],
                   validated w (cudaconfig home nvcc))))"

subsection \<open>A machine to run the locator on\<close>

text \<open>
  CUDA is installed under \<^verbatim>\<open>/opt/cuda\<close>, a second \<^verbatim>\<open>nvcc\<close> lies later on the
  search path, and \<^verbatim>\<open>CUDAHOME\<close> is not set.
\<close>

definition example_world :: world where
  "example_world =
     \<lparr>environ = [''PATH'' \<mapsto> ''/usr/bin:/opt/cuda/bin:/x/bin''],
      defpath = ''/bin:/usr/bin'',
      path_exists = (\<lambda>p. p \<in> set [''/usr/bin'', ''/opt/cuda'', ''/opt/cuda/bin/nvcc'',
                                      ''/opt/cuda/include'', ''/opt/cuda/lib/x64'',
                                      ''/x/bin/nvcc'']),
      access_check = (\<lambda>p. p \<in> set [''/opt/cuda/bin/nvcc'', ''/x/bin/nvcc''])\<rparr>"

text \<open>The same machine with the override set and no \<^verbatim>\<open>nvcc\<close> on the search path.\<close>

definition override_world :: world where
  "override_world =
     example_world\<lparr>environ := [''CUDAHOME'' \<mapsto> ''/opt/cuda'', ''PATH'' \<mapsto> ''/usr/bin''],
                   access_check := (\<lambda>p. False)\<rparr>"

text \<open>A machine without any \<^verbatim>\<open>nvcc\<close>.\<close>

definition bare_world :: world where
  "bare_world = example_world\<lparr>access_check := (\<lambda>p. False)\<rparr>"

text \<open>A partial installation: the include directory is missing.\<close>

definition broken_world :: world where
  "broken_world =
     example_world\<lparr>path_exists :=
       (\<lambda>p. p \<in> set [''/opt/cuda'', ''/opt/cuda/bin/nvcc'', ''/opt/cuda/lib/x64''])\<rparr>"

section \<open>Properties of the dispatching compile method\<close>

lemma splitext_examples:
  "snd (splitext ''k.cu'') = ''.cu''" "snd (splitext ''a.c'') = ''.c''"
  "snd (splitext ''k.CU'') = ''.CU''" "snd (splitext ''k.cuh'') = ''.cuh''"
  "snd (splitext ''k.cpp'') = ''.cpp''" "snd (splitext ''kernel'') = []"
  "snd (splitext ''.cu'') = []"
  by (simp_all add: splitext_def rfind_def)

text \<open>
  C1. When the source list is not empty and the dictionary has both the \<^verbatim>\<open>nvcc\<close> and
  the \<^verbatim>\<open>gcc\<close> key, the wrapped compile method is called once, and the flag list it
  receives in the place of the dictionary is the \<^verbatim>\<open>nvcc\<close> entry if the extension of
  the first source is \<^verbatim>\<open>.cu\<close>, and the \<^verbatim>\<open>gcc\<close> entry for any other extension.
\<close>

theorem compile_selects_flags:
  assumes "sources = first # rest"
    and "extra_postargs ''nvcc'' = Some nvcc_flags"
    and "extra_postargs ''gcc'' = Some gcc_flags"
  shows "map call_extra_postargs
           (fst (compile super sources output_dir macros include_dirs debug extra_preargs
                   extra_postargs depends))
         = [if snd (splitext first) = ''.cu'' then nvcc_flags else gcc_flags]"
  using assms by (simp add: compile_def subscript_def Let_def)

text \<open>
  The two end-to-end scenarios of the specification: \<^verbatim>\<open>k.cu\<close> is compiled with
  \<^verbatim>\<open>-arch=sm_35\<close> and \<^verbatim>\<open>a.c\<close> with \<^verbatim>\<open>-O2\<close>.
\<close>

theorem compile_selects_flags_witness:
  "map call_extra_postargs
     (fst (compile id [''k.cu''] PyNone PyNone PyNone (PyInt 0) PyNone
             [''gcc'' \<mapsto> PyList [PyStr ''-O2''], ''nvcc'' \<mapsto> PyList [PyStr ''-arch=sm_35'']]
             PyNone))
   = [PyList [PyStr ''-arch=sm_35'']]
   \<and> map call_extra_postargs
     (fst (compile id [''a.c''] PyNone PyNone PyNone (PyInt 0) PyNone
             [''gcc'' \<mapsto> PyList [PyStr ''-O2''], ''nvcc'' \<mapsto> PyList [PyStr ''-arch=sm_35'']]
             PyNone))
   = [PyList [PyStr ''-O2'']]"
proof -
  let ?m = "[''gcc'' \<mapsto> PyList [PyStr ''-O2''], ''nvcc'' \<mapsto> PyList [PyStr ''-arch=sm_35'']]"
  have n: "?m ''nvcc'' = Some (PyList [PyStr ''-arch=sm_35''])" by simp
  have g: "?m ''gcc'' = Some (PyList [PyStr ''-O2''])" by simp
  show ?thesis
    using compile_selects_flags[where sources = "[''k.cu'']" and first = "''k.cu''"
        and rest = "[]" and super = id and extra_postargs = ?m, OF refl n g]
      compile_selects_flags[where sources = "[''a.c'']" and first = "''a.c''"
        and rest = "[]" and super = id and extra_postargs = ?m, OF refl n g]
      splitext_examples(1,2)
    by simp
qed

text \<open>
  C2, as the specification states it, fails: compiling \<^verbatim>\<open>k.cu\<close> with a dictionary that
  has no \<^verbatim>\<open>nvcc\<close> entry raises \<^verbatim>\<open>KeyError('nvcc')\<close>, and nothing in that exception
  names the source file.
\<close>

theorem compile_missing_key_counterexample:
  "[''gcc'' \<mapsto> PyList []] ''nvcc'' = None
   \<and> snd (splitext ''k.cu'') = ''.cu''
   \<and> compile id [''k.cu''] PyNone PyNone PyNone (PyInt 0) PyNone [''gcc'' \<mapsto> PyList []] PyNone
       = ([], Inl (KeyError ''nvcc''))
   \<and> \<not> names (KeyError ''nvcc'') ''k.cu''"
  by (simp add: compile_def splitext_def rfind_def subscript_def names_def sublist_code(3))

text \<open>
  C2, amended. When the dictionary has no entry for the toolchain name resolved from the
  extension of the first source (\<^verbatim>\<open>nvcc\<close> for \<^verbatim>\<open>.cu\<close>, \<^verbatim>\<open>gcc\<close> otherwise), compile
  raises KeyError whose only argument is that toolchain name. No flag list is substituted
  and the wrapped compile method is not called.
\<close>

theorem compile_missing_key:
  assumes "key = (if snd (splitext first) = ''.cu'' then ''nvcc'' else ''gcc'')"
    and "extra_postargs key = None"
  shows "compile super (first # rest) output_dir macros include_dirs debug extra_preargs
           extra_postargs depends = ([], Inl (KeyError key))
         \<and> args (KeyError key) = [key]"
  using assms by (auto simp: compile_def subscript_def Let_def split: if_splits)

theorem compile_missing_key_witness:
  "compile id [''a.c'', ''k.cu''] PyNone PyNone PyNone (PyInt 0) PyNone
     [''nvcc'' \<mapsto> PyList []] PyNone = ([], Inl (KeyError ''gcc''))"
proof -
  have k: "''gcc'' = (if snd (splitext ''a.c'') = ''.cu'' then ''nvcc'' else ''gcc'')"
    by (simp add: splitext_examples(2))
  have m: "[''nvcc'' \<mapsto> PyList []] ''gcc'' = None" by simp
  show ?thesis
    using compile_missing_key[where key = "''gcc''" and first = "''a.c''"
        and extra_postargs = "[''nvcc'' \<mapsto> PyList []]" and super = id
        and rest = "[''k.cu'']", OF k m]
    by simp
qed

text \<open>
  C3. Whenever the source list is not empty and the dictionary has an entry for the
  toolchain selected by the extension of the first source, compile calls the wrapped
  compile method exactly once, with the caller's sources, output directory, macros,
  include directories, debug flag, extra pre-arguments and dependencies unchanged and
  with that entry in the place of the dictionary, and returns what that call returns.
  The entry of the other toolchain need not be present.
\<close>

theorem compile_frame:
  assumes "sources = first # rest"
    and "extra_postargs (if snd (splitext first) = ''.cu'' then ''nvcc'' else ''gcc'')
           = Some postargs"
  shows "compile super sources output_dir macros include_dirs debug extra_preargs
           extra_postargs depends
         = ([\<lparr>call_sources = sources, call_output_dir = output_dir,
               call_macros = macros, call_include_dirs = include_dirs,
               call_debug = debug, call_extra_preargs = extra_preargs,
               call_extra_postargs = postargs, call_depends = depends\<rparr>],
            Inr (super \<lparr>call_sources = sources, call_output_dir = output_dir,
               call_macros = macros, call_include_dirs = include_dirs,
               call_debug = debug, call_extra_preargs = extra_preargs,
               call_extra_postargs = postargs, call_depends = depends\<rparr>))"
  using assms by (auto simp: compile_def subscript_def Let_def split: if_splits)

text \<open>
  A \<^verbatim>\<open>.cu\<close> source with a dictionary that has the \<^verbatim>\<open>nvcc\<close> entry only: the call is
  made, and every argument arrives as supplied.
\<close>

theorem compile_frame_witness:
  "compile id [''k.cu''] (PyStr ''build'') (PyList [PyStr ''NDEBUG''])
          (PyList [PyStr ''/usr/include'']) (PyInt 1) (PyList [PyStr ''-fPIC''])
          [''nvcc'' \<mapsto> PyList [PyStr ''-c'']] (PyList [PyStr ''k.h''])
   = ([\<lparr>call_sources = [''k.cu''], call_output_dir = PyStr ''build'',
        call_macros = PyList [PyStr ''NDEBUG''],
        call_include_dirs = PyList [PyStr ''/usr/include''], call_debug = PyInt 1,
        call_extra_preargs = PyList [PyStr ''-fPIC''],
        call_extra_postargs = PyList [PyStr ''-c''],
        call_depends = PyList [PyStr ''k.h'']\<rparr>],
      Inr \<lparr>call_sources = [''k.cu''], call_output_dir = PyStr ''build'',
        call_macros = PyList [PyStr ''NDEBUG''],
        call_include_dirs = PyList [PyStr ''/usr/include''], call_debug = PyInt 1,
        call_extra_preargs = PyList [PyStr ''-fPIC''],
        call_extra_postargs = PyList [PyStr ''-c''],
        call_depends = PyList [PyStr ''k.h'']\<rparr>)"
proof -
  have k: "[''nvcc'' \<mapsto> PyList [PyStr ''-c'']]
             (if snd (splitext ''k.cu'') = ''.cu'' then ''nvcc'' else ''gcc'')
           = Some (PyList [PyStr ''-c''])"
    by (simp add: splitext_examples(1))
  show ?thesis
    using compile_frame[where sources = "[''k.cu'']" and first = "''k.cu''" and rest = "[]"
        and super = id and extra_postargs = "[''nvcc'' \<mapsto> PyList [PyStr ''-c'']]", OF refl k]
    by simp
qed

text \<open>
  C9. With an empty source list compile raises IndexError, from \<^verbatim>\<open>sources[0]\<close>, and
  the wrapped compile method is not called.
\<close>

theorem compile_empty_sources:
  "compile super [] output_dir macros include_dirs debug extra_preargs extra_postargs depends
     = ([], Inl IndexError)"
  by (simp add: compile_def)

text \<open>
  C10. The test is equality of the extension with \<^verbatim>\<open>.cu\<close>. Whenever the extension of
  the first source is any other string, compile behaves as the \<^verbatim>\<open>gcc\<close> entry alone
  dictates: it forwards that entry, or raises \<^verbatim>\<open>KeyError('gcc')\<close> when there is none.
  The \<^verbatim>\<open>nvcc\<close> entry is never looked at.
\<close>

theorem compile_other_extension:
  assumes "snd (splitext first) \<noteq> ''.cu''"
  shows "compile super (first # rest) output_dir macros include_dirs debug extra_preargs
           extra_postargs depends
         = (case extra_postargs ''gcc'' of
              None \<Rightarrow> ([], Inl (KeyError ''gcc''))
            | Some gcc_flags \<Rightarrow>
                ([\<lparr>call_sources = first # rest, call_output_dir = output_dir,
                   call_macros = macros, call_include_dirs = include_dirs,
                   call_debug = debug, call_extra_preargs = extra_preargs,
                   call_extra_postargs = gcc_flags, call_depends = depends\<rparr>],
                 Inr (super \<lparr>call_sources = first # rest, call_output_dir = output_dir,
                   call_macros = macros, call_include_dirs = include_dirs,
                   call_debug = debug, call_extra_preargs = extra_preargs,
                   call_extra_postargs = gcc_flags, call_depends = depends\<rparr>)))"
  using assms by (simp add: compile_def subscript_def Let_def split: option.splits)

text \<open>
  The extensions \<^verbatim>\<open>.CU\<close>, \<^verbatim>\<open>.cuh\<close>, \<^verbatim>\<open>.cpp\<close> and the empty extension all select the
  \<^verbatim>\<open>gcc\<close> entry.
\<close>

theorem compile_other_extension_witness:
  "map call_extra_postargs
     (fst (compile id [''k.CU''] PyNone PyNone PyNone (PyInt 0) PyNone
             [''gcc'' \<mapsto> PyList [PyStr ''-O2''], ''nvcc'' \<mapsto> PyList [PyStr ''-c'']] PyNone))
   = [PyList [PyStr ''-O2'']]
   \<and> map call_extra_postargs
     (fst (compile id [''k.cuh''] PyNone PyNone PyNone (PyInt 0) PyNone
             [''gcc'' \<mapsto> PyList [PyStr ''-O2''], ''nvcc'' \<mapsto> PyList [PyStr ''-c'']] PyNone))
   = [PyList [PyStr ''-O2'']]
   \<and> map call_extra_postargs
     (fst (compile id [''k.cpp''] PyNone PyNone PyNone (PyInt 0) PyNone
             [''gcc'' \<mapsto> PyList [PyStr ''-O2''], ''nvcc'' \<mapsto> PyList [PyStr ''-c'']] PyNone))
   = [PyList [PyStr ''-O2'']]
   \<and> map call_extra_postargs
     (fst (compile id [''kernel''] PyNone PyNone PyNone (PyInt 0) PyNone
             [''gcc'' \<mapsto> PyList [PyStr ''-O2''], ''nvcc'' \<mapsto> PyList [PyStr ''-c'']] PyNone))
   = [PyList [PyStr ''-O2'']]"
proof -
  let ?m = "[''gcc'' \<mapsto> PyList [PyStr ''-O2''], ''nvcc'' \<mapsto> PyList [PyStr ''-c'']]"
  have a: "snd (splitext ''k.CU'') \<noteq> ''.cu''" by (simp add: splitext_examples(3))
  have b: "snd (splitext ''k.cuh'') \<noteq> ''.cu''" by (simp add: splitext_examples(4))
  have c: "snd (splitext ''k.cpp'') \<noteq> ''.cu''" by (simp add: splitext_examples(5))
  have d: "snd (splitext ''kernel'') \<noteq> ''.cu''" by (simp add: splitext_examples(6))
  show ?thesis
    using compile_other_extension[OF a, where super = id and rest = "[]" and extra_postargs = ?m]
      compile_other_extension[OF b, where super = id and rest = "[]" and extra_postargs = ?m]
      compile_other_extension[OF c, where super = id and rest = "[]" and extra_postargs = ?m]
      compile_other_extension[OF d, where super = id and rest = "[]" and extra_postargs = ?m]
    by simp
qed

section \<open>Properties of the locator\<close>

text \<open>
  The search loop returns the first candidate that passes the executable test; skipping
  directories already seen changes nothing, since a directory seen before has failed
  the test.
\<close>

lemma which_loop_find:
  "\<forall>d \<in> set seen. \<not> access_check w (pjoin d [cmd]) \<Longrightarrow>
   which_loop w cmd seen path = List.find (access_check w) (map (\<lambda>d. pjoin d [cmd]) path)"
  by (induction path arbitrary: seen) (auto simp: Let_def)

lemma find_first_match:
  "\<forall>x \<in> set before. \<not> P (f x) \<Longrightarrow> P (f x0) \<Longrightarrow>
   List.find P (map f (before @ x0 # after)) = Some (f x0)"
  by (induction before) auto

lemma find_no_match: "\<forall>x \<in> set xs. \<not> P (f x) \<Longrightarrow> List.find P (map f xs) = None"
  by (induction xs) auto

lemma dirname_nvcc: "dirname ''nvcc'' = []"
  by (simp add: dirname_def rfind_def)

lemma which_nvcc:
  "which w ''nvcc'' =
     (if search_path w = [] then None
      else List.find (access_check w)
             (map (\<lambda>d. pjoin d [''nvcc'']) (split_sep CHR '':'' (search_path w))))"
  by (simp add: which_def dirname_nvcc Let_def which_loop_find)

lemma check_items_none:
  "check_items w config = None \<longleftrightarrow> (\<forall>v \<in> set (map snd config). path_exists w v)"
  by (induction config) (auto split: if_splits)

lemma check_items_first:
  "\<forall>v \<in> set (map snd ok). path_exists w v \<Longrightarrow> \<not> path_exists w v \<Longrightarrow>
   check_items w (ok @ (k, v) # rest) = Some (EnvironmentError (path_message k v))"
  by (induction ok) auto

lemma validated_Inr:
  "validated w config = Inr c \<longleftrightarrow> c = config \<and> (\<forall>v \<in> set (map snd config). path_exists w v)"
proof (cases "check_items w config")
  case None
  then show ?thesis using check_items_none[of w config] by (auto simp: validated_def)
next
  case (Some e)
  then show ?thesis using check_items_none[of w config] by (auto simp: validated_def)
qed

lemma pjoin_plain:
  "home \<noteq> [] \<Longrightarrow> last home \<noteq> CHR ''/'' \<Longrightarrow>
   pjoin home [''bin'', ''nvcc''] = home @ ''/bin/nvcc'' \<and>
   pjoin home [''include''] = home @ ''/include'' \<and>
   pjoin home [''lib'', ''x64''] = home @ ''/lib/x64''"
  by (simp add: pjoin_def join_step_def)

text \<open>
  C4. When \<^verbatim>\<open>CUDAHOME\<close> is set, its value is the toolchain root as it stands and the
  compiler path is the root joined with \<^verbatim>\<open>bin\<close> and \<^verbatim>\<open>nvcc\<close>. The executable
  search is not performed: the trace is empty, and the outcome does not change when the
  executable test and the fallback search path are replaced by any others. When the four
  paths exist the dictionary holds exactly them.
\<close>

theorem locate_cuda_override:
  assumes "environ w ''CUDAHOME'' = Some home"
  shows "fst (locate_cuda w) = []
    \<and> snd (locate_cuda w) = validated w (cudaconfig home (pjoin home [''bin'', ''nvcc'']))
    \<and> (\<forall>check fallback. locate_cuda (w\<lparr>access_check := check, defpath := fallback\<rparr>) = locate_cuda w)
    \<and> (path_exists w home \<and> path_exists w (pjoin home [''bin'', ''nvcc''])
         \<and> path_exists w (pjoin home [''include'']) \<and> path_exists w (pjoin home [''lib'', ''x64''])
       \<longrightarrow> snd (locate_cuda w) =
             Inr [(''home'', home), (''nvcc'', pjoin home [''bin'', ''nvcc'']),
                  (''include'', pjoin home [''include'']),
                  (''lib64'', pjoin home [''lib'', ''x64''])])"
  using assms by (simp add: locate_cuda_def validated_def cudaconfig_def)

text \<open>
  The override on a machine whose search path holds no \<^verbatim>\<open>nvcc\<close>: the search would
  find nothing, and \<^verbatim>\<open>locate_cuda\<close> succeeds without it.
\<close>

theorem locate_cuda_override_witness:
  "which override_world ''nvcc'' = None
   \<and> fst (locate_cuda override_world) = []
   \<and> snd (locate_cuda override_world) =
       Inr [(''home'', ''/opt/cuda''), (''nvcc'', ''/opt/cuda/bin/nvcc''),
            (''include'', ''/opt/cuda/include''), (''lib64'', ''/opt/cuda/lib/x64'')]"
proof -
  have h: "environ override_world ''CUDAHOME'' = Some ''/opt/cuda''"
    by (simp add: override_world_def example_world_def)
  have j: "pjoin ''/opt/cuda'' [''bin'', ''nvcc''] = ''/opt/cuda/bin/nvcc''"
    "pjoin ''/opt/cuda'' [''include''] = ''/opt/cuda/include''"
    "pjoin ''/opt/cuda'' [''lib'', ''x64''] = ''/opt/cuda/lib/x64''"
    by (simp_all add: pjoin_def join_step_def)
  have e: "path_exists override_world ''/opt/cuda''"
    "path_exists override_world ''/opt/cuda/bin/nvcc''"
    "path_exists override_world ''/opt/cuda/include''"
    "path_exists override_world ''/opt/cuda/lib/x64''"
    by (simp_all add: override_world_def example_world_def)
  have n: "which override_world ''nvcc'' = None"
    by (simp add: which_nvcc override_world_def example_world_def search_path_def)
  show ?thesis using locate_cuda_override[OF h] j e n by (simp add: validated_def cudaconfig_def)
qed

text \<open>
  C5. When \<^verbatim>\<open>CUDAHOME\<close> is not set and the search path is not empty, the directories
  of the search path are tried in order: if \<open>dir\<close> is the first one in which
  \<^verbatim>\<open>nvcc\<close> passes the executable test, the compiler path is \<open>dir\<close> joined with
  \<^verbatim>\<open>nvcc\<close>, the root is the parent of its parent, and when root, compiler path,
  \<^verbatim>\<open>include\<close> and \<^verbatim>\<open>lib/x64\<close> under the root all exist, \<^verbatim>\<open>locate_cuda\<close> returns
  the dictionary of exactly these four paths.
\<close>

theorem locate_cuda_search:
  assumes "environ w ''CUDAHOME'' = None"
    and "search_path w \<noteq> []"
    and "split_sep CHR '':'' (search_path w) = before @ dir # after"
    and "\<forall>d \<in> set before. \<not> access_check w (pjoin d [''nvcc''])"
    and "access_check w (pjoin dir [''nvcc''])"
    and "nvcc = pjoin dir [''nvcc'']"
    and "home = dirname (dirname nvcc)"
    and "path_exists w home" and "path_exists w nvcc"
    and "path_exists w (pjoin home [''include''])"
    and "path_exists w (pjoin home [''lib'', ''x64''])"
  shows "locate_cuda w =
           ([PathSearch ''nvcc'', Print (''nvcc path is '' @ nvcc)],
            Inr [(''home'', home), (''nvcc'', nvcc),
                 (''include'', pjoin home [''include'']),
                 (''lib64'', pjoin home [''lib'', ''x64''])])"
proof -
  have "List.find (access_check w) (map (\<lambda>d. pjoin d [''nvcc'']) (before @ dir # after))
          = Some (pjoin dir [''nvcc''])"
    using assms(4,5) by (rule find_first_match)
  then have "which w ''nvcc'' = Some nvcc"
    using assms(2,3,6) by (simp only: which_nvcc if_False)
  then show ?thesis
    using assms(1,7-11) by (simp add: locate_cuda_def validated_def cudaconfig_def Let_def)
qed

text \<open>
  On the example machine the second directory of the search path wins over the third.
\<close>

theorem locate_cuda_search_witness:
  "locate_cuda example_world =
     ([PathSearch ''nvcc'', Print ''nvcc path is /opt/cuda/bin/nvcc''],
      Inr [(''home'', ''/opt/cuda''), (''nvcc'', ''/opt/cuda/bin/nvcc''),
           (''include'', ''/opt/cuda/include''), (''lib64'', ''/opt/cuda/lib/x64'')])"
proof -
  have a1: "environ example_world ''CUDAHOME'' = None" by (simp add: example_world_def)
  have a2: "search_path example_world \<noteq> []" by (simp add: search_path_def example_world_def)
  have a3: "split_sep CHR '':'' (search_path example_world) = [''/usr/bin''] @ ''/opt/cuda/bin'' # [''/x/bin'']"
    by (simp add: search_path_def example_world_def)
  have a4: "\<forall>d \<in> set [''/usr/bin'']. \<not> access_check example_world (pjoin d [''nvcc''])"
    by (simp add: example_world_def pjoin_def join_step_def)
  have a5: "access_check example_world (pjoin ''/opt/cuda/bin'' [''nvcc''])"
    by (simp add: example_world_def pjoin_def join_step_def)
  have a6: "''/opt/cuda/bin/nvcc'' = pjoin ''/opt/cuda/bin'' [''nvcc'']"
    by (simp add: pjoin_def join_step_def)
  have a7: "''/opt/cuda'' = dirname (dirname ''/opt/cuda/bin/nvcc'')"
    by (simp add: dirname_def rfind_def rstrip_def)
  have j: "pjoin ''/opt/cuda'' [''include''] = ''/opt/cuda/include''"
    "pjoin ''/opt/cuda'' [''lib'', ''x64''] = ''/opt/cuda/lib/x64''"
    by (simp_all add: pjoin_def join_step_def)
  have e: "path_exists example_world ''/opt/cuda''"
    "path_exists example_world ''/opt/cuda/bin/nvcc''"
    "path_exists example_world (pjoin ''/opt/cuda'' [''include''])"
    "path_exists example_world (pjoin ''/opt/cuda'' [''lib'', ''x64''])"
    by (simp_all add: example_world_def j)
  show ?thesis
    using locate_cuda_search[OF a1 a2 a3 a4 a5 a6 a7 e] j by simp
qed

text \<open>
  C6. When \<^verbatim>\<open>CUDAHOME\<close> is not set and no directory of the search path holds an
  executable \<^verbatim>\<open>nvcc\<close>, \<^verbatim>\<open>locate_cuda\<close> searches once and raises EnvironmentError
  with the not-found message. The message names \<^verbatim>\<open>nvcc\<close> and tells the caller to set
  \<^verbatim>\<open>$CUDAHOME\<close>, and it is not a missing-path message for any key and path.
\<close>

theorem locate_cuda_not_found:
  assumes "environ w ''CUDAHOME'' = None"
    and "search_path w \<noteq> [] \<longrightarrow>
         (\<forall>d \<in> set (split_sep CHR '':'' (search_path w)). \<not> access_check w (pjoin d [''nvcc'']))"
  shows "locate_cuda w = ([PathSearch ''nvcc''], Inl (EnvironmentError not_found_message))
    \<and> names (EnvironmentError not_found_message) ''nvcc''
    \<and> names (EnvironmentError not_found_message) ''set $CUDAHOME''
    \<and> (\<forall>k v. not_found_message \<noteq> path_message k v)"
proof -
  have "which w ''nvcc'' = None"
    using assms(2) by (simp add: which_nvcc find_no_match)
  then have "locate_cuda w = ([PathSearch ''nvcc''], Inl (EnvironmentError not_found_message))"
    using assms(1) by (simp add: locate_cuda_def)
  moreover have "names (EnvironmentError not_found_message) ''nvcc''"
    by (simp add: names_def not_found_message_def sublist_code(3))
  moreover have "names (EnvironmentError not_found_message) ''set $CUDAHOME''"
    by (simp add: names_def not_found_message_def sublist_code(3))
  moreover have "\<forall>k v. not_found_message \<noteq> path_message k v"
    by (simp add: not_found_message_def path_message_def)
  ultimately show ?thesis by simp
qed

text \<open>A machine without \<^verbatim>\<open>nvcc\<close>.\<close>

theorem locate_cuda_not_found_witness:
  "locate_cuda bare_world = ([PathSearch ''nvcc''], Inl (EnvironmentError not_found_message))"
proof -
  have a1: "environ bare_world ''CUDAHOME'' = None"
    by (simp add: bare_world_def example_world_def)
  have a2: "search_path bare_world \<noteq> [] \<longrightarrow>
         (\<forall>d \<in> set (split_sep CHR '':'' (search_path bare_world)).
            \<not> access_check bare_world (pjoin d [''nvcc'']))"
    by (simp add: bare_world_def example_world_def)
  show ?thesis using locate_cuda_not_found[OF a1 a2] by simp
qed

text \<open>
  C7. Once the root and the compiler path are determined, by the override or by the
  search, and one of the four paths is missing, \<^verbatim>\<open>locate_cuda\<close> raises EnvironmentError
  whose message gives the key and the path of the first missing item in the order
  \<^verbatim>\<open>home\<close>, \<^verbatim>\<open>nvcc\<close>, \<^verbatim>\<open>include\<close>, \<^verbatim>\<open>lib64\<close>.
\<close>

theorem locate_cuda_first_missing:
  assumes "environ w ''CUDAHOME'' = Some home \<and> nvcc = pjoin home [''bin'', ''nvcc'']
           \<or> environ w ''CUDAHOME'' = None \<and> which w ''nvcc'' = Some nvcc
              \<and> home = dirname (dirname nvcc)"
    and "[(''home'', home), (''nvcc'', nvcc), (''include'', pjoin home [''include'']),
          (''lib64'', pjoin home [''lib'', ''x64''])] = ok @ (k, v) # rest"
    and "\<forall>p \<in> set (map snd ok). path_exists w p"
    and "\<not> path_exists w v"
  shows "snd (locate_cuda w) = Inl (EnvironmentError (path_message k v))"
proof -
  have c: "cudaconfig home nvcc = ok @ (k, v) # rest"
    using assms(2) by (simp add: cudaconfig_def)
  have "validated w (cudaconfig home nvcc) = Inl (EnvironmentError (path_message k v))"
    using check_items_first[OF assms(3,4)] by (simp add: validated_def c)
  then show ?thesis
    using assms(1) by (auto simp: locate_cuda_def Let_def)
qed

text \<open>A partial installation: the first missing item is the include directory.\<close>

theorem locate_cuda_first_missing_witness:
  "snd (locate_cuda broken_world) =
     Inl (EnvironmentError ''The CUDA include path could not be located in /opt/cuda/include'')"
proof -
  have w: "which broken_world ''nvcc'' = Some ''/opt/cuda/bin/nvcc''"
    by (simp add: which_nvcc broken_world_def example_world_def search_path_def
          pjoin_def join_step_def)
  have a1: "environ broken_world ''CUDAHOME'' = Some ''/opt/cuda''
              \<and> ''/opt/cuda/bin/nvcc'' = pjoin ''/opt/cuda'' [''bin'', ''nvcc'']
           \<or> environ broken_world ''CUDAHOME'' = None
              \<and> which broken_world ''nvcc'' = Some ''/opt/cuda/bin/nvcc''
              \<and> ''/opt/cuda'' = dirname (dirname ''/opt/cuda/bin/nvcc'')"
    using w by (simp add: broken_world_def example_world_def dirname_def rfind_def rstrip_def)
  have a2: "[(''home'', ''/opt/cuda''), (''nvcc'', ''/opt/cuda/bin/nvcc''),
             (''include'', pjoin ''/opt/cuda'' [''include'']),
             (''lib64'', pjoin ''/opt/cuda'' [''lib'', ''x64''])]
            = [(''home'', ''/opt/cuda''), (''nvcc'', ''/opt/cuda/bin/nvcc'')]
              @ (''include'', ''/opt/cuda/include'') # [(''lib64'', ''/opt/cuda/lib/x64'')]"
    by (simp add: pjoin_def join_step_def)
  have a3: "\<forall>p \<in> set (map snd [(''home'', ''/opt/cuda''), (''nvcc'', ''/opt/cuda/bin/nvcc'')]).
              path_exists broken_world p"
    by (simp add: broken_world_def)
  have a4: "\<not> path_exists broken_world ''/opt/cuda/include''"
    by (simp add: broken_world_def)
  show ?thesis
    using locate_cuda_first_missing[OF a1 a2 a3 a4] by (simp add: path_message_def)
qed

text \<open>
  C8. A dictionary returned by \<^verbatim>\<open>locate_cuda\<close> has the four keys \<^verbatim>\<open>home\<close>,
  \<^verbatim>\<open>nvcc\<close>, \<^verbatim>\<open>include\<close> and \<^verbatim>\<open>lib64\<close>, and every one of its paths exists.
\<close>

theorem locate_cuda_all_exist:
  assumes "snd (locate_cuda w) = Inr config"
  shows "map fst config = [''home'', ''nvcc'', ''include'', ''lib64'']
         \<and> list_all (\<lambda>(k, v). path_exists w v) config"
proof -
  obtain home nvcc where "validated w (cudaconfig home nvcc) = Inr config"
    using assms by (auto simp: locate_cuda_def Let_def split: option.splits)
  then have "config = cudaconfig home nvcc" and "\<forall>v \<in> set (map snd config). path_exists w v"
    by (simp_all add: validated_Inr)
  then show ?thesis by (auto simp: cudaconfig_def list_all_iff)
qed

text \<open>The dictionary returned on the example machine.\<close>

theorem locate_cuda_all_exist_witness:
  "list_all (\<lambda>(k, v). path_exists example_world v)
     [(''home'', ''/opt/cuda''), (''nvcc'', ''/opt/cuda/bin/nvcc''),
      (''include'', ''/opt/cuda/include''), (''lib64'', ''/opt/cuda/lib/x64'')]"
proof -
  have h: "snd (locate_cuda example_world) =
     Inr [(''home'', ''/opt/cuda''), (''nvcc'', ''/opt/cuda/bin/nvcc''),
          (''include'', ''/opt/cuda/include''), (''lib64'', ''/opt/cuda/lib/x64'')]"
    by (simp add: locate_cuda_def which_nvcc example_world_def search_path_def
          pjoin_def join_step_def dirname_def rfind_def rstrip_def validated_def cudaconfig_def)
  show ?thesis using locate_cuda_all_exist[OF h] by simp
qed

end
